theory Spec2Isabelle
  imports Main
begin

section \<open>Data model\<close>

text \<open>
  A Go \<open>error\<close> is \<open>nil\<close> or a value carrying a message; a Go \<open>string\<close> and a
  \<open>[]byte\<close> are byte sequences, here both \<open>string\<close> (a list of 8-bit characters).
\<close>

type_synonym error = "string option"

record Page =
  Title :: string
  Body :: string

text \<open>
  The part of \<open>*http.Request\<close> the handlers read: the method, \<open>r.URL.Path\<close> and the
  form values behind \<open>r.FormValue\<close>.
\<close>

record Request =
  Method :: string
  Path :: string
  Form :: "string \<rightharpoonup> string"

text \<open>
  An \<open>http.ResponseWriter\<close>: the live header map, the status line and header snapshot
  that went out with the first \<open>WriteHeader\<close> (\<open>None\<close> until then), and the body bytes
  written so far.
\<close>

record ResponseWriter =
  header :: "string \<rightharpoonup> string"
  sent :: "(nat \<times> (string \<rightharpoonup> string)) option"
  body :: string

text \<open>
  Every call a handler makes into the standard library is recorded, in order, in an
  event log: lines printed on standard output, file accesses, template parsing and
  execution, and the response helpers of \<open>net/http\<close>.
\<close>

datatype event =
    EvPrintln string
  | EvReadFile string
  | EvWriteFile string string nat
  | EvParseFiles string
  | EvExecuteTemplate string "Page option"
  | EvError string nat
  | EvRedirect string nat

text \<open>
  The state a request runs in. \<open>files\<close> is the working directory (file name to
  content). The file system may refuse an access: \<open>write_fault name = Some (msg, k)\<close>
  makes \<open>ioutil.WriteFile\<close> on \<open>name\<close> return the error \<open>msg\<close>, having stored nothing
  (\<open>k = None\<close>, the file could not be opened) or only the first \<open>n\<close> bytes
  (\<open>k = Some n\<close>, the file was truncated and the write stopped early);
  \<open>read_fault name = Some msg\<close> makes \<open>ioutil.ReadFile\<close> on an existing \<open>name\<close>
  fail with \<open>msg\<close>. \<open>templates\<close> is the template engine, which is not part of the
  repository: executing the template of a given file name on a page pointer (\<open>None\<close>
  is the nil pointer) yields the bytes it wrote to the response before it stopped and
  the error it returned. \<open>parse_fault\<close> is the error of \<open>template.ParseFiles\<close> on a
  file name, if any.
\<close>

record state =
  files :: "string \<rightharpoonup> string"
  write_fault :: "string \<Rightarrow> (string \<times> nat option) option"
  read_fault :: "string \<Rightarrow> string option"
  templates :: "string \<Rightarrow> Page option \<Rightarrow> string \<times> error"
  parse_fault :: "string \<Rightarrow> string option"
  events :: "event list"
  resp :: ResponseWriter

definition new_response :: ResponseWriter where
  "new_response = \<lparr>header = Map.empty, sent = None, body = []\<rparr>"


section \<open>Standard library calls\<close>

subsection \<open>fmt and io/ioutil\<close>

definition Println :: "string \<Rightarrow> state \<Rightarrow> state" where
  "Println line s = s\<lparr>events := events s @ [EvPrintln line]\<rparr>"

definition ReadFile :: "string \<Rightarrow> state \<Rightarrow> (string \<times> error) \<times> state" where
  "ReadFile name s =
     (let s1 = s\<lparr>events := events s @ [EvReadFile name]\<rparr> in
      case files s name of
        None \<Rightarrow> (([], Some (''open '' @ name @ '': no such file or directory'')), s1)
      | Some data \<Rightarrow>
          (case read_fault s name of
             Some msg \<Rightarrow> (([], Some msg), s1)
           | None \<Rightarrow> ((data, None), s1)))"

definition WriteFile :: "string \<Rightarrow> string \<Rightarrow> nat \<Rightarrow> state \<Rightarrow> error \<times> state" where
  "WriteFile name data perm s =
     (let s1 = s\<lparr>events := events s @ [EvWriteFile name data perm]\<rparr> in
      case write_fault s name of
        None \<Rightarrow> (None, s1\<lparr>files := (files s1)(name \<mapsto> data)\<rparr>)
      | Some (msg, None) \<Rightarrow> (Some msg, s1)
      | Some (msg, Some n) \<Rightarrow> (Some msg, s1\<lparr>files := (files s1)(name \<mapsto> take n data)\<rparr>))"


subsection \<open>net/http\<close>

definition WriteHeader :: "nat \<Rightarrow> ResponseWriter \<Rightarrow> ResponseWriter" where
  "WriteHeader code w =
     (case sent w of
        None \<Rightarrow> w\<lparr>sent := Some (code, header w)\<rparr>
      | Some _ \<Rightarrow> w)"

definition Write :: "string \<Rightarrow> ResponseWriter \<Rightarrow> ResponseWriter" where
  "Write data w =
     (let w1 = (if sent w = None then WriteHeader 200 w else w) in
      w1\<lparr>body := body w1 @ data\<rparr>)"

definition Header_Set :: "string \<Rightarrow> string \<Rightarrow> ResponseWriter \<Rightarrow> ResponseWriter" where
  "Header_Set k v w = w\<lparr>header := (header w)(k \<mapsto> v)\<rparr>"

definition Fprintln :: "string \<Rightarrow> ResponseWriter \<Rightarrow> ResponseWriter" where
  "Fprintln line w = Write (line @ [CHR 0x0A]) w"

definition StatusNotFound :: nat where
  "StatusNotFound = 404"

definition StatusFound :: nat where
  "StatusFound = 302"

definition StatusInternalServerError :: nat where
  "StatusInternalServerError = 500"

definition StatusText :: "nat \<Rightarrow> string" where
  "StatusText code =
     (if code = 301 then ''Moved Permanently''
      else if code = 302 then ''Found''
      else if code = 303 then ''See Other''
      else if code = 307 then ''Temporary Redirect''
      else if code = 308 then ''Permanent Redirect''
      else [])"

definition htmlEscape :: "string \<Rightarrow> string" where
  "htmlEscape str =
     concat (map (\<lambda>c.
       if c = CHR ''&'' then ''&amp;''
       else if c = CHR ''<'' then ''&lt;''
       else if c = CHR ''>'' then ''&gt;''
       else if c = CHR 0x22 then ''&#34;''
       else if c = CHR 0x27 then ''&#39;''
       else [c]) str)"

definition http_Error :: "string \<Rightarrow> nat \<Rightarrow> state \<Rightarrow> state" where
  "http_Error err code s =
     (let w1 = Header_Set ''Content-Type'' ''text/plain; charset=utf-8'' (resp s);
          w2 = Header_Set ''X-Content-Type-Options'' ''nosniff'' w1;
          w3 = WriteHeader code w2;
          w4 = Fprintln err w3
      in s\<lparr>events := events s @ [EvError err code], resp := w4\<rparr>)"

definition http_NotFound :: "Request \<Rightarrow> state \<Rightarrow> state" where
  "http_NotFound r s = http_Error ''404 page not found'' StatusNotFound s"

text \<open>
  \<open>http.Redirect\<close>. The location recorded is the target as the handler passed it.
  The library first normalises a target (dot segments, empty segments, non-ASCII
  bytes); it leaves \<open>"/edit/" + title\<close> and \<open>"/view/" + title\<close> as they are when
  the title is alphanumeric, which is the case the statements below about a location
  are restricted to.
\<close>

definition http_Redirect :: "Request \<Rightarrow> string \<Rightarrow> nat \<Rightarrow> state \<Rightarrow> state" where
  "http_Redirect r url code s =
     (let w0 = resp s;
          hadCT = (header w0 ''Content-Type'' \<noteq> None);
          w1 = Header_Set ''Location'' url w0;
          w2 = (if \<not> hadCT \<and> (Method r = ''GET'' \<or> Method r = ''HEAD'')
                then Header_Set ''Content-Type'' ''text/html; charset=utf-8'' w1 else w1);
          w3 = WriteHeader code w2;
          w4 = (if \<not> hadCT \<and> Method r = ''GET''
                then Fprintln (''<a href='' @ [CHR 0x22] @ htmlEscape url @ [CHR 0x22] @ ''>''
                                @ StatusText code @ ''</a>.'' @ [CHR 0x0A]) w3
                else w3)
      in s\<lparr>events := events s @ [EvRedirect url code], resp := w4\<rparr>)"

definition FormValue :: "Request \<Rightarrow> string \<Rightarrow> string" where
  "FormValue r key = (case Form r key of None \<Rightarrow> [] | Some v \<Rightarrow> v)"


subsection \<open>regexp\<close>

text \<open>
  The character class \<open>[a-zA-Z0-9]\<close> and the regular expression
  \<open>^/(edit|save|view)/([a-zA-Z0-9]+)$\<close> of \<open>validPath\<close>.
\<close>

definition alnum :: "char \<Rightarrow> bool" where
  "alnum c =
     (let n = (of_char c :: nat) in
      (of_char CHR ''a'' \<le> n \<and> n \<le> of_char CHR ''z'') \<or>
      (of_char CHR ''A'' \<le> n \<and> n \<le> of_char CHR ''Z'') \<or>
      (of_char CHR ''0'' \<le> n \<and> n \<le> of_char CHR ''9''))"

datatype rexp =
    Lit string
  | Class "char \<Rightarrow> bool"
  | Alt rexp rexp
  | Seq rexp rexp
  | Plus rexp

text \<open>
  A backtracking matcher: \<open>rest r w\<close> lists what is left of \<open>w\<close> after each way of
  matching a prefix of it against \<open>r\<close>, and \<open>r\<close> matches \<open>w\<close>, anchored at both
  ends, when nothing can be left.
\<close>

fun rest :: "rexp \<Rightarrow> string \<Rightarrow> string list" where
  "rest (Lit l) w = (if take (length l) w = l then [drop (length l) w] else [])"
| "rest (Class P) w = (case w of [] \<Rightarrow> [] | c # cs \<Rightarrow> if P c then [cs] else [])"
| "rest (Alt a b) w = rest a w @ rest b w"
| "rest (Seq a b) w = concat (map (rest b) (rest a w))"
| "rest (Plus a) w =
     (let rs = rest a w in
      rs @ concat (map (rest (Plus a)) (filter (\<lambda>r. length r < length w) rs)))"

definition matches :: "rexp \<Rightarrow> string \<Rightarrow> bool" where
  "matches r w = ([] \<in> set (rest r w))"

definition action_re :: rexp where
  "action_re = Alt (Lit ''edit'') (Alt (Lit ''save'') (Lit ''view''))"

definition ident_re :: rexp where
  "ident_re = Plus (Class alnum)"

definition validPath :: rexp where
  "validPath = Seq (Lit ''/'') (Seq action_re (Seq (Lit ''/'') ident_re))"

text \<open>
  \<open>validPath.FindStringSubmatch\<close>: \<open>None\<close> is the nil slice of a failed match, otherwise
  the whole match and the two capture groups. The pattern is anchored at both ends,
  so the whole match is the path itself.
\<close>

definition FindStringSubmatch :: "string \<Rightarrow> string list option" where
  "FindStringSubmatch path =
     (case filter (\<lambda>a. take (length a + 2) path = ''/'' @ a @ ''/'') [''edit'', ''save'', ''view''] of
        [] \<Rightarrow> None
      | a # _ \<Rightarrow>
          (let ident = drop (length a + 2) path in
           if ident \<noteq> [] \<and> list_all alnum ident then Some [path, a, ident] else None))"

text \<open>A title the router lets through: \<open>^[A-Za-z0-9]+$\<close>.\<close>

definition validTitle :: "string \<Rightarrow> bool" where
  "validTitle t = (t \<noteq> [] \<and> list_all alnum t)"


section \<open>The page store\<close>

definition filename :: "string \<Rightarrow> string" where
  "filename title = title @ ''.txt''"

definition save :: "Page \<Rightarrow> state \<Rightarrow> error \<times> state" where
  "save p s =
     (let fname = filename (Title p);
          s1 = Println (''saving'' @ fname) s
      in WriteFile fname (Body p) 384 s1)"

definition loadPage :: "string \<Rightarrow> state \<Rightarrow> (Page option \<times> error) \<times> state" where
  "loadPage title s =
     (let fname = filename title;
          ((body, err), s1) = ReadFile fname s
      in if err \<noteq> None then ((None, err), s1)
         else ((Some \<lparr>Title = title, Body = body\<rparr>, None), s1))"


section \<open>The validating web application\<close>

definition ExecuteTemplate :: "string \<Rightarrow> Page option \<Rightarrow> state \<Rightarrow> error \<times> state" where
  "ExecuteTemplate name p s =
     (let (out, err) = templates s name p;
          w = (if out = [] then resp s else Write out (resp s))
      in (err, s\<lparr>events := events s @ [EvExecuteTemplate name p], resp := w\<rparr>))"

definition renderTemplate :: "string \<Rightarrow> Page option \<Rightarrow> state \<Rightarrow> state" where
  "renderTemplate tmpl p s =
     (let (err, s1) = ExecuteTemplate (tmpl @ ''.html'') p s in
      case err of
        Some msg \<Rightarrow> http_Error msg StatusInternalServerError s1
      | None \<Rightarrow> s1)"

definition viewHandler :: "Request \<Rightarrow> string \<Rightarrow> state \<Rightarrow> state" where
  "viewHandler r title s =
     (let s1 = Println (''view: '' @ Path r) s;
          ((p, err), s2) = loadPage title s1;
          s3 = (if err \<noteq> None then http_Redirect r (''/edit/'' @ title) StatusFound s2 else s2)
      in renderTemplate ''view'' p s3)"

definition editHandler :: "Request \<Rightarrow> string \<Rightarrow> state \<Rightarrow> state" where
  "editHandler r title s =
     (let ((p, err), s1) = loadPage title s;
          p' = (if err \<noteq> None then Some \<lparr>Title = title, Body = []\<rparr> else p)
      in renderTemplate ''edit'' p' s1)"

definition saveHandler :: "Request \<Rightarrow> string \<Rightarrow> state \<Rightarrow> state" where
  "saveHandler r title s =
     (let s1 = Println (''save: '' @ Path r) s;
          body = FormValue r ''body'';
          p = \<lparr>Title = title, Body = body\<rparr>;
          (err, s2) = save p s1
      in case err of
           Some msg \<Rightarrow> http_Error msg StatusInternalServerError s2
         | None \<Rightarrow> http_Redirect r (''/view/'' @ title) StatusFound s2)"

definition makeHandler :: "(Request \<Rightarrow> string \<Rightarrow> state \<Rightarrow> state) \<Rightarrow> Request \<Rightarrow> state \<Rightarrow> state" where
  "makeHandler fn r s =
     (case FindStringSubmatch (Path r) of
        None \<Rightarrow> http_NotFound r s
      | Some m \<Rightarrow> fn r (m ! 2) s)"


section \<open>The earlier web application (wiki.go)\<close>

text \<open>
  The handlers of \<open>wiki.go\<close> have the names of the ones above; they are prefixed with
  \<open>wiki_\<close> here. \<open>save\<close> and \<open>loadPage\<close> are the same functions in both files. A
  handler either returns or panics (the slice expression \<open>r.URL.Path[len("/view/"):]\<close>
  panics on a path shorter than the prefix); a panic keeps the state reached so far.
\<close>

datatype outcome = Returned state | Panicked string state

definition ParseFiles :: "string \<Rightarrow> state \<Rightarrow> error \<times> state" where
  "ParseFiles name s = (parse_fault s name, s\<lparr>events := events s @ [EvParseFiles name]\<rparr>)"

definition wiki_renderTemplate :: "string \<Rightarrow> Page option \<Rightarrow> state \<Rightarrow> state" where
  "wiki_renderTemplate tmpl p s =
     (let (err, s1) = ParseFiles (tmpl @ ''.html'') s in
      case err of
        Some msg \<Rightarrow> http_Error msg StatusInternalServerError s1
      | None \<Rightarrow>
          (let (err2, s2) = ExecuteTemplate (tmpl @ ''.html'') p s1 in
           case err2 of
             Some msg \<Rightarrow> http_Error msg StatusInternalServerError s2
           | None \<Rightarrow> s2))"

definition wiki_viewHandler :: "Request \<Rightarrow> state \<Rightarrow> outcome" where
  "wiki_viewHandler r s =
     (let s1 = Println (''view: '' @ Path r) s in
      if length (Path r) < length ''/view/''
      then Panicked ''slice bounds out of range'' s1
      else
        (let title = drop (length ''/view/'') (Path r);
             ((p, err), s2) = loadPage title s1;
             s3 = (if err \<noteq> None then http_Redirect r (''/edit/'' @ title) StatusFound s2 else s2)
         in Returned (wiki_renderTemplate ''view'' p s3)))"

definition wiki_editHandler :: "Request \<Rightarrow> state \<Rightarrow> outcome" where
  "wiki_editHandler r s =
     (let s1 = Println (''edit: '' @ Path r) s in
      if length (Path r) < length ''/view/''
      then Panicked ''slice bounds out of range'' s1
      else
        (let title = drop (length ''/view/'') (Path r);
             ((p, err), s2) = loadPage title s1;
             p' = (if err \<noteq> None then Some \<lparr>Title = title, Body = []\<rparr> else p)
         in Returned (wiki_renderTemplate ''edit'' p' s2)))"

definition wiki_saveHandler :: "Request \<Rightarrow> state \<Rightarrow> outcome" where
  "wiki_saveHandler r s =
     (let s1 = Println (''save: '' @ Path r) s in
      if length (Path r) < length ''/save/''
      then Panicked ''slice bounds out of range'' s1
      else
        (let title = drop (length ''/save/'') (Path r);
             body = FormValue r ''body'';
             p = \<lparr>Title = title, Body = body\<rparr>;
             (err, s2) = save p s1
         in case err of
              Some msg \<Rightarrow> Returned (http_Error msg StatusInternalServerError s2)
            | None \<Rightarrow> Returned (http_Redirect r (''/view/'' @ title) StatusFound s2)))"


section \<open>Sample environments\<close>

text \<open>
  A template engine that fails on the nil page after writing the text before the first
  field, and the states around it: an empty working directory that accepts every
  access, the same directory write-protected, a directory holding the page \<open>Alpha\<close>,
  and that directory with its files unreadable.
\<close>

definition demo_templates :: "string \<Rightarrow> Page option \<Rightarrow> string \<times> error" where
  "demo_templates name p =
     (case p of
        None \<Rightarrow> (''<h1>'', Some ''nil pointer evaluating *main.Page.Title'')
      | Some pg \<Rightarrow> (''<h1>'' @ Title pg @ ''</h1><div>'' @ Body pg @ ''</div>'', None))"

definition demo_state :: state where
  "demo_state =
     \<lparr>files = Map.empty, write_fault = (\<lambda>name. None), read_fault = (\<lambda>name. None),
      templates = demo_templates, parse_fault = (\<lambda>name. None), events = [],
      resp = new_response\<rparr>"

definition readonly_state :: state where
  "readonly_state =
     demo_state\<lparr>write_fault := (\<lambda>name. Some (''open '' @ name @ '': permission denied'', None))\<rparr>"

definition alpha_state :: state where
  "alpha_state = demo_state\<lparr>files := [''Alpha.txt'' \<mapsto> ''Hello'']\<rparr>"

definition unreadable_state :: state where
  "unreadable_state =
     alpha_state\<lparr>read_fault := (\<lambda>name. Some (''open '' @ name @ '': permission denied''))\<rparr>"

definition get_request :: "string \<Rightarrow> Request" where
  "get_request p = \<lparr>Method = ''GET'', Path = p, Form = Map.empty\<rparr>"

definition post_request :: "string \<Rightarrow> string \<Rightarrow> Request" where
  "post_request p b = \<lparr>Method = ''POST'', Path = p, Form = [''body'' \<mapsto> b]\<rparr>"

text \<open>The lines an event log shows on standard output, oldest first.\<close>

fun printed :: "event list \<Rightarrow> string list" where
  "printed [] = []"
| "printed (EvPrintln line # es) = line # printed es"
| "printed (_ # es) = printed es"


section \<open>Facts about the library calls\<close>

lemmas http_defs = http_Error_def http_NotFound_def http_Redirect_def Header_Set_def
  WriteHeader_def Write_def Fprintln_def StatusFound_def StatusNotFound_def
  StatusInternalServerError_def new_response_def

lemmas render_defs = renderTemplate_def ExecuteTemplate_def

lemmas demo_defs = demo_state_def readonly_state_def alpha_state_def unreadable_state_def
  demo_templates_def get_request_def post_request_def

lemma printed_append: "printed (xs @ ys) = printed xs @ printed ys"
  by (induction xs rule: printed.induct) simp_all

lemma Println_simps:
  "files (Println l s) = files s" "write_fault (Println l s) = write_fault s"
  "read_fault (Println l s) = read_fault s" "events (Println l s) = events s @ [EvPrintln l]"
  by (simp_all add: Println_def)

lemma WriteFile_error:
  "fst (WriteFile name d perm s) = map_option fst (write_fault s name)"
  by (simp add: WriteFile_def Let_def split: option.splits prod.splits)

lemma WriteFile_files:
  "files (snd (WriteFile name d perm s))
     = (case write_fault s name of
          None \<Rightarrow> (files s)(name \<mapsto> d)
        | Some (msg, None) \<Rightarrow> files s
        | Some (msg, Some n) \<Rightarrow> (files s)(name \<mapsto> take n d))"
  by (simp add: WriteFile_def Let_def split: option.splits prod.splits)

lemma WriteFile_events:
  "events (snd (WriteFile name d perm s)) = events s @ [EvWriteFile name d perm]"
  by (simp add: WriteFile_def Let_def split: option.splits prod.splits)

lemma WriteFile_read_fault:
  "read_fault (snd (WriteFile name d perm s)) = read_fault s"
  by (simp add: WriteFile_def Let_def split: option.splits prod.splits)

lemma http_Redirect_simps:
  "events (http_Redirect r u c s) = events s @ [EvRedirect u c]"
  "files (http_Redirect r u c s) = files s"
  "templates (http_Redirect r u c s) = templates s"
  "parse_fault (http_Redirect r u c s) = parse_fault s"
  by (simp_all add: http_Redirect_def Let_def)

lemma http_Error_simps:
  "events (http_Error msg c s) = events s @ [EvError msg c]"
  "files (http_Error msg c s) = files s"
  by (simp_all add: http_Error_def Let_def)

lemma renderTemplate_events:
  "events (renderTemplate tmpl p s)
     = events s @ [EvExecuteTemplate (tmpl @ ''.html'') p]
       @ (case snd (templates s (tmpl @ ''.html'') p) of
            None \<Rightarrow> [] | Some msg \<Rightarrow> [EvError msg 500])"
  by (simp add: renderTemplate_def ExecuteTemplate_def http_Error_simps
      StatusInternalServerError_def Let_def split: prod.splits option.splits)

lemma wiki_renderTemplate_events:
  "\<exists>tl. events (wiki_renderTemplate tmpl p s) = events s @ tl"
  by (simp add: wiki_renderTemplate_def ParseFiles_def ExecuteTemplate_def http_Error_simps
      Let_def split: prod.splits option.splits)


section \<open>The path pattern\<close>

text \<open>
  \<open>FindStringSubmatch\<close> accepts exactly the paths \<open>/<action>/<title>\<close> with an action
  among \<open>edit\<close>, \<open>save\<close>, \<open>view\<close> and a non-empty alphanumeric title, returns the
  title as the second group, and agrees with the language of the regular expression.
\<close>

lemma FindStringSubmatch_valid:
  assumes "validTitle t" and "a \<in> {''edit'', ''save'', ''view''}"
  shows "FindStringSubmatch (''/'' @ a @ ''/'' @ t) = Some [''/'' @ a @ ''/'' @ t, a, t]"
  using assms by (auto simp: FindStringSubmatch_def validTitle_def Let_def)

lemma take_eq_appendD: "take n p = w \<Longrightarrow> p = w @ drop n p"
  by (metis append_take_drop_id)

lemma FindStringSubmatch_Some:
  assumes "FindStringSubmatch p = Some m"
  shows "\<exists>a t. a \<in> {''edit'', ''save'', ''view''} \<and> validTitle t
            \<and> p = ''/'' @ a @ ''/'' @ t \<and> m = [p, a, t]"
proof -
  let ?as = "filter (\<lambda>a. take (length a + 2) p = ''/'' @ a @ ''/'') [''edit'', ''save'', ''view'']"
  from assms obtain a rest where as: "?as = a # rest"
    by (cases ?as) (simp_all add: FindStringSubmatch_def)
  then have "a \<in> set ?as" by simp
  then have "a \<in> set [''edit'', ''save'', ''view''] \<and> take (length a + 2) p = ''/'' @ a @ ''/''"
    by (simp only: set_filter mem_Collect_eq)
  then have a: "a \<in> {''edit'', ''save'', ''view''}"
    and tk: "take (length a + 2) p = ''/'' @ a @ ''/''"
    by simp_all
  let ?t = "drop (length a + 2) p"
  from assms as have v: "validTitle ?t" and m: "m = [p, a, ?t]"
    by (auto simp: FindStringSubmatch_def validTitle_def Let_def split: if_splits)
  from tk have "p = (''/'' @ a @ ''/'') @ ?t" by (rule take_eq_appendD)
  with a v m show ?thesis by auto
qed

lemma FindStringSubmatch_None_iff:
  "FindStringSubmatch p = None \<longleftrightarrow>
     \<not> (\<exists>a t. a \<in> {''edit'', ''save'', ''view''} \<and> validTitle t \<and> p = ''/'' @ a @ ''/'' @ t)"
proof
  assume n: "FindStringSubmatch p = None"
  show "\<not> (\<exists>a t. a \<in> {''edit'', ''save'', ''view''} \<and> validTitle t \<and> p = ''/'' @ a @ ''/'' @ t)"
  proof
    assume "\<exists>a t. a \<in> {''edit'', ''save'', ''view''} \<and> validTitle t \<and> p = ''/'' @ a @ ''/'' @ t"
    then obtain a t where "a \<in> {''edit'', ''save'', ''view''}" "validTitle t"
      "p = ''/'' @ a @ ''/'' @ t"
      by blast
    then have "FindStringSubmatch p \<noteq> None" using FindStringSubmatch_valid by simp
    with n show False by simp
  qed
next
  assume h: "\<not> (\<exists>a t. a \<in> {''edit'', ''save'', ''view''} \<and> validTitle t \<and> p = ''/'' @ a @ ''/'' @ t)"
  show "FindStringSubmatch p = None"
  proof (cases "FindStringSubmatch p")
    case None
    then show ?thesis .
  next
    case (Some m)
    from FindStringSubmatch_Some [OF Some] h show ?thesis by blast
  qed
qed

lemma rest_Lit: "v \<in> set (rest (Lit l) w) \<longleftrightarrow> w = l @ v"
proof -
  have "w = l @ v \<longleftrightarrow> take (length l) w = l \<and> v = drop (length l) w"
    by (metis append_eq_conv_conj)
  then show ?thesis by auto
qed

lemma rest_Alt: "v \<in> set (rest (Alt a b) w) \<longleftrightarrow> v \<in> set (rest a w) \<or> v \<in> set (rest b w)"
  by simp

lemma rest_Seq:
  "v \<in> set (rest (Seq a b) w) \<longleftrightarrow> (\<exists>u. u \<in> set (rest a w) \<and> v \<in> set (rest b u))"
  by auto

lemma rest_Plus_Class_Cons:
  "rest (Plus (Class P)) (c # cs) = (if P c then cs # rest (Plus (Class P)) cs else [])"
  by (simp add: Let_def)

lemma rest_Plus_Class: "[] \<in> set (rest (Plus (Class P)) w) \<longleftrightarrow> w \<noteq> [] \<and> list_all P w"
proof (induction w)
  case Nil
  show ?case by (simp add: Let_def)
next
  case (Cons c cs)
  show ?case
    unfolding rest_Plus_Class_Cons using Cons.IH by (cases cs) auto
qed

lemma matches_ident_re: "matches ident_re t \<longleftrightarrow> validTitle t"
  by (simp only: matches_def ident_re_def validTitle_def rest_Plus_Class)

lemma rest_action_re:
  "v \<in> set (rest action_re u) \<longleftrightarrow> (\<exists>a. a \<in> {''edit'', ''save'', ''view''} \<and> u = a @ v)"
  unfolding action_re_def rest_Alt rest_Lit by blast

lemma matches_validPath:
  "matches validPath p \<longleftrightarrow>
     (\<exists>a t. a \<in> {''edit'', ''save'', ''view''} \<and> validTitle t \<and> p = ''/'' @ a @ ''/'' @ t)"
proof -
  have "matches validPath p \<longleftrightarrow>
      (\<exists>u1 u2 u3. p = ''/'' @ u1 \<and> (\<exists>a. a \<in> {''edit'', ''save'', ''view''} \<and> u1 = a @ u2)
          \<and> u2 = ''/'' @ u3 \<and> matches ident_re u3)"
    unfolding matches_def validPath_def rest_Seq rest_Lit rest_action_re by blast
  also have "\<dots> \<longleftrightarrow>
     (\<exists>a t. a \<in> {''edit'', ''save'', ''view''} \<and> validTitle t \<and> p = ''/'' @ a @ ''/'' @ t)"
    unfolding matches_ident_re by blast
  finally show ?thesis .
qed

lemma FindStringSubmatch_matches: "FindStringSubmatch p \<noteq> None \<longleftrightarrow> matches validPath p"
  by (simp only: FindStringSubmatch_None_iff matches_validPath not_not)

lemma makeHandler_valid:
  assumes "validTitle t" and "a \<in> {''edit'', ''save'', ''view''}"
    and "Path r = ''/'' @ a @ ''/'' @ t"
  shows "makeHandler fn r s = fn r t s"
  using FindStringSubmatch_valid [OF assms(1,2)] assms(3) by (simp add: makeHandler_def)


section \<open>Facts about the page store\<close>

lemma save_unfold:
  "save p s = WriteFile (filename (Title p)) (Body p) 384 (Println (''saving'' @ filename (Title p)) s)"
  by (simp add: save_def Let_def)

lemma save_events:
  "events (snd (save p s))
     = events s @ [EvPrintln (''saving'' @ filename (Title p)),
                   EvWriteFile (filename (Title p)) (Body p) 384]"
  by (simp add: save_unfold WriteFile_events Println_simps)

lemma loadPage_result_eq:
  "fst (loadPage t s)
     = (case files s (filename t) of
          None \<Rightarrow> (None, Some (''open '' @ filename t @ '': no such file or directory''))
        | Some d \<Rightarrow>
            (case read_fault s (filename t) of
               Some msg \<Rightarrow> (None, Some msg)
             | None \<Rightarrow> (Some \<lparr>Title = t, Body = d\<rparr>, None)))"
  by (simp add: loadPage_def ReadFile_def Let_def split: option.splits)

lemma loadPage_state:
  "snd (loadPage t s) = s\<lparr>events := events s @ [EvReadFile (filename t)]\<rparr>"
  by (simp add: loadPage_def ReadFile_def Let_def split: option.splits)

lemma loadPage_eq:
  "loadPage t s = (fst (loadPage t s), s\<lparr>events := events s @ [EvReadFile (filename t)]\<rparr>)"
  by (simp add: loadPage_state [symmetric])

lemma loadPage_missing:
  "files s (filename t) = None \<Longrightarrow>
   loadPage t s = ((None, Some (''open '' @ filename t @ '': no such file or directory'')),
                   s\<lparr>events := events s @ [EvReadFile (filename t)]\<rparr>)"
  by (simp add: loadPage_def ReadFile_def Let_def)

lemma loadPage_error_nil:
  "snd (fst (loadPage t s)) \<noteq> None \<Longrightarrow> fst (fst (loadPage t s)) = None"
  by (simp add: loadPage_result_eq split: option.splits)

lemma loadPage_Println: "fst (loadPage t (Println l s)) = fst (loadPage t s)"
  by (simp add: loadPage_result_eq Println_simps cong: option.case_cong)

lemma filename_eq_iff: "(filename t1 = filename t2) = (t1 = t2)"
  by (simp add: filename_def)

section \<open>The page store: round trip, keys, trace and results\<close>

lemmas store_defs = save_def loadPage_def ReadFile_def WriteFile_def Println_def filename_def
  Let_def

text \<open>
  Claim C1, as amended. For every title \<open>t\<close> and body \<open>b\<close>: if \<open>save\<close> on the page
  with title \<open>t\<close> and body \<open>b\<close> returns no error and the file system does not refuse
  to read \<open>t.txt\<close>, then \<open>loadPage t\<close> afterwards succeeds and returns the page with
  title \<open>t\<close> and body \<open>b\<close> exactly.
\<close>

theorem save_loadPage_roundtrip:
  assumes "fst (save \<lparr>Title = t, Body = b\<rparr> s) = None"
    and "read_fault s (filename t) = None"
  shows "fst (loadPage t (snd (save \<lparr>Title = t, Body = b\<rparr> s)))
           = (Some \<lparr>Title = t, Body = b\<rparr>, None)"
  using assms by (auto simp: store_defs split: option.splits prod.splits)

theorem save_loadPage_roundtrip_witness:
  "fst (save \<lparr>Title = ''Alpha'', Body = ''Hello''\<rparr> demo_state) = None
   \<and> read_fault demo_state (filename ''Alpha'') = None
   \<and> fst (loadPage ''Alpha'' (snd (save \<lparr>Title = ''Alpha'', Body = ''Hello''\<rparr> demo_state)))
       = (Some \<lparr>Title = ''Alpha'', Body = ''Hello''\<rparr>, None)"
proof -
  have h1: "fst (save \<lparr>Title = ''Alpha'', Body = ''Hello''\<rparr> demo_state) = None"
    by (simp add: store_defs demo_defs)
  have h2: "read_fault demo_state (filename ''Alpha'') = None"
    by (simp add: demo_defs)
  from h1 h2 save_loadPage_roundtrip [OF h1 h2] show ?thesis by blast
qed

text \<open>
  The round trip as stated, for every valid title and body, fails where the file
  system refuses an access. In the write-protected directory \<open>save\<close> returns the error
  and \<open>loadPage\<close> finds no file; where \<open>Alpha.txt\<close> exists unreadable, \<open>save\<close>
  succeeds and \<open>loadPage\<close> still fails.
\<close>

theorem save_loadPage_roundtrip_counterexample:
  "validTitle ''Alpha''
   \<and> fst (save \<lparr>Title = ''Alpha'', Body = ''Hello''\<rparr> readonly_state)
       = Some ''open Alpha.txt: permission denied''
   \<and> fst (loadPage ''Alpha'' (snd (save \<lparr>Title = ''Alpha'', Body = ''Hello''\<rparr> readonly_state)))
       = (None, Some ''open Alpha.txt: no such file or directory'')
   \<and> fst (save \<lparr>Title = ''Alpha'', Body = ''Bye''\<rparr> unreadable_state) = None
   \<and> fst (loadPage ''Alpha'' (snd (save \<lparr>Title = ''Alpha'', Body = ''Bye''\<rparr> unreadable_state)))
       = (None, Some ''open Alpha.txt: permission denied'')"
  by (simp add: store_defs demo_defs validTitle_def alnum_def)

text \<open>
  Claim C7. The storage key of a title is \<open>title + ".txt"\<close>; \<open>loadPage\<close> reads and
  \<open>save\<close> writes exactly that key; two titles have the same key only if they are the
  same title (for all titles, the alphanumeric ones among them); and saving one title
  leaves what \<open>loadPage\<close> returns for any other title unchanged.
\<close>

theorem filename_injective:
  "filename t = t @ ''.txt''
   \<and> (filename t1 = filename t2) = (t1 = t2)
   \<and> events (snd (loadPage t s)) = events s @ [EvReadFile (filename t)]
   \<and> events (snd (save p s))
       = events s @ [EvPrintln (''saving'' @ filename (Title p)),
                     EvWriteFile (filename (Title p)) (Body p) 384]
   \<and> (t1 \<noteq> t2 \<longrightarrow>
        fst (loadPage t2 (snd (save \<lparr>Title = t1, Body = b\<rparr> s))) = fst (loadPage t2 s))"
proof -
  have "fst (loadPage t2 (snd (save \<lparr>Title = t1, Body = b\<rparr> s))) = fst (loadPage t2 s)"
    if "t1 \<noteq> t2"
  proof -
    from that have "filename t2 \<noteq> filename t1" by (simp add: filename_eq_iff)
    then show ?thesis
      by (simp add: loadPage_result_eq save_unfold WriteFile_files WriteFile_read_fault
          Println_simps cong: option.case_cong prod.case_cong split: option.splits prod.splits)
  qed
  moreover have "filename t = t @ ''.txt''" by (simp add: filename_def)
  moreover have "events (snd (loadPage t s)) = events s @ [EvReadFile (filename t)]"
    by (simp add: loadPage_state)
  moreover note save_events [of p s]
  ultimately show ?thesis by (simp add: filename_eq_iff)
qed

theorem filename_injective_witness:
  "validTitle ''Alpha'' \<and> validTitle ''Beta'' \<and> ''Alpha'' \<noteq> ''Beta''
   \<and> filename ''Alpha'' = ''Alpha.txt''
   \<and> filename ''Alpha'' \<noteq> filename ''Beta''
   \<and> fst (loadPage ''Beta'' (snd (save \<lparr>Title = ''Alpha'', Body = ''Hello''\<rparr> alpha_state)))
       = fst (loadPage ''Beta'' alpha_state)"
proof -
  have v: "validTitle ''Alpha'' \<and> validTitle ''Beta''"
    by (simp add: validTitle_def alnum_def)
  have d: "''Alpha'' \<noteq> ''Beta''" by simp
  note th = filename_injective [of "''Alpha''" "''Alpha''" "''Beta''" alpha_state
      "\<lparr>Title = ''Alpha'', Body = ''Hello''\<rparr>" "''Hello''"]
  from th have a: "filename ''Alpha'' = ''Alpha.txt''" by simp
  from th d have b: "filename ''Alpha'' \<noteq> filename ''Beta''" by blast
  from th d have c: "fst (loadPage ''Beta''
      (snd (save \<lparr>Title = ''Alpha'', Body = ''Hello''\<rparr> alpha_state)))
       = fst (loadPage ''Beta'' alpha_state)" by blast
  from v d a b c show ?thesis by blast
qed

text \<open>
  Claim C6, as amended. Every \<open>save\<close> prints one line on standard output, the word
  \<open>saving\<close> followed by the storage key, and the printing does not affect the
  operation: the returned error and the stored files are those of the bare
  \<open>WriteFile\<close>, whatever has been printed before. \<open>loadPage\<close> prints nothing, and its
  result does not depend on what has been printed either.
\<close>

theorem save_prints_loadPage_silent:
  "printed (events (snd (save p s))) = printed (events s) @ [''saving'' @ filename (Title p)]
   \<and> fst (save p s) = fst (WriteFile (filename (Title p)) (Body p) 384 s)
   \<and> files (snd (save p s)) = files (snd (WriteFile (filename (Title p)) (Body p) 384 s))
   \<and> fst (save p (s\<lparr>events := es\<rparr>)) = fst (save p s)
   \<and> files (snd (save p (s\<lparr>events := es\<rparr>))) = files (snd (save p s))
   \<and> printed (events (snd (loadPage t s))) = printed (events s)
   \<and> fst (loadPage t (s\<lparr>events := es\<rparr>)) = fst (loadPage t s)"
  by (simp add: save_unfold WriteFile_error WriteFile_files WriteFile_events Println_simps
      loadPage_result_eq loadPage_state printed_append cong: option.case_cong prod.case_cong)

theorem save_prints_loadPage_silent_witness:
  "printed (events (snd (save \<lparr>Title = ''Alpha'', Body = ''Hello''\<rparr> demo_state)))
     = [''savingAlpha.txt'']
   \<and> printed (events (snd (loadPage ''Alpha'' demo_state))) = []"
  using save_prints_loadPage_silent [of "\<lparr>Title = ''Alpha'', Body = ''Hello''\<rparr>" demo_state
      "[]" "''Alpha''"]
  by (simp add: demo_state_def filename_def)

text \<open>
  The claim as stated, that every load emits a trace record: loading the existing
  page \<open>Alpha\<close> succeeds and prints no line at all, and neither does the whole edit
  request for that page.
\<close>

theorem loadPage_trace_counterexample:
  "fst (loadPage ''Alpha'' alpha_state) = (Some \<lparr>Title = ''Alpha'', Body = ''Hello''\<rparr>, None)
   \<and> printed (events (snd (loadPage ''Alpha'' alpha_state))) = []
   \<and> events (makeHandler editHandler (get_request ''/edit/Alpha'') alpha_state)
       = [EvReadFile ''Alpha.txt'',
          EvExecuteTemplate ''edit.html'' (Some \<lparr>Title = ''Alpha'', Body = ''Hello''\<rparr>)]"
proof -
  have "FindStringSubmatch ''/edit/Alpha'' = Some [''/edit/Alpha'', ''edit'', ''Alpha'']"
    by (simp add: FindStringSubmatch_def Let_def alnum_def)
  then have "makeHandler editHandler (get_request ''/edit/Alpha'') alpha_state
      = editHandler (get_request ''/edit/Alpha'') ''Alpha'' alpha_state"
    by (simp add: makeHandler_def get_request_def)
  moreover have "loadPage ''Alpha'' alpha_state
      = ((Some \<lparr>Title = ''Alpha'', Body = ''Hello''\<rparr>, None),
         alpha_state\<lparr>events := [EvReadFile ''Alpha.txt'']\<rparr>)"
    by (simp add: store_defs demo_defs)
  ultimately show ?thesis
    by (simp add: editHandler_def renderTemplate_events demo_defs)
qed

text \<open>
  Claim C9. \<open>loadPage t\<close> returns either a page together with the nil error, and then
  the page's title is \<open>t\<close> itself, or the nil page together with a non-nil error.
\<close>

theorem loadPage_result:
  "(case fst (loadPage t s) of
      (Some p, None) \<Rightarrow> Title p = t
    | (None, Some msg) \<Rightarrow> True
    | _ \<Rightarrow> False)"
  by (simp add: loadPage_result_eq split: option.splits)

theorem loadPage_result_witness:
  "fst (loadPage ''Alpha'' alpha_state) = (Some \<lparr>Title = ''Alpha'', Body = ''Hello''\<rparr>, None)
   \<and> fst (loadPage ''Beta'' alpha_state)
       = (None, Some ''open Beta.txt: no such file or directory'')"
  using loadPage_result [of "''Alpha''" alpha_state] loadPage_result [of "''Beta''" alpha_state]
  by (simp add: loadPage_result_eq filename_def demo_defs)

section \<open>The validating handlers\<close>

text \<open>
  Claim C2. For every request path that is not of the shape \<open>/view/<id>\<close>,
  \<open>/edit/<id>\<close> or \<open>/save/<id>\<close> with \<open><id>\<close> matching \<open>^[A-Za-z0-9]+$\<close>, the
  wrapped handler is \<open>http.NotFound\<close> and nothing else, whatever the inner handler
  is: the response is 404, the inner handler does not run, no file is read or written
  (the only event is the error response) and the files are unchanged.
\<close>

theorem makeHandler_rejects_invalid_path:
  assumes "\<not> (\<exists>a t. a \<in> {''edit'', ''save'', ''view''} \<and> validTitle t
                  \<and> Path r = ''/'' @ a @ ''/'' @ t)"
    and "resp s = new_response"
  shows "makeHandler fn r s = http_NotFound r s
    \<and> (\<exists>h. sent (resp (makeHandler fn r s)) = Some (404, h))
    \<and> body (resp (makeHandler fn r s)) = ''404 page not found'' @ [CHR 0x0A]
    \<and> files (makeHandler fn r s) = files s
    \<and> events (makeHandler fn r s) = events s @ [EvError ''404 page not found'' 404]"
proof -
  from assms(1) have "FindStringSubmatch (Path r) = None"
    by (simp only: FindStringSubmatch_None_iff not_False_eq_True)
  then have "makeHandler fn r s = http_NotFound r s"
    by (simp add: makeHandler_def)
  with assms(2) show ?thesis by (simp add: http_defs Let_def)
qed

theorem makeHandler_rejects_invalid_path_witness:
  "FindStringSubmatch ''/edit/../../etc/passwd'' = None
   \<and> sent (resp (makeHandler saveHandler (post_request ''/edit/../../etc/passwd'' ''x'') alpha_state))
       = Some (404, [''Content-Type'' \<mapsto> ''text/plain; charset=utf-8'',
                     ''X-Content-Type-Options'' \<mapsto> ''nosniff''])
   \<and> files (makeHandler saveHandler (post_request ''/edit/../../etc/passwd'' ''x'') alpha_state)
       = files alpha_state
   \<and> events (makeHandler saveHandler (post_request ''/edit/../../etc/passwd'' ''x'') alpha_state)
       = [EvError ''404 page not found'' 404]"
proof -
  let ?r = "post_request ''/edit/../../etc/passwd'' ''x''"
  have n: "FindStringSubmatch ''/edit/../../etc/passwd'' = None"
    by (simp add: FindStringSubmatch_def Let_def alnum_def)
  then have "FindStringSubmatch (Path ?r) = None"
    by (simp add: post_request_def)
  then have h1: "\<not> (\<exists>a t. a \<in> {''edit'', ''save'', ''view''} \<and> validTitle t
                  \<and> Path ?r = ''/'' @ a @ ''/'' @ t)"
    using FindStringSubmatch_None_iff by blast
  have h2: "resp alpha_state = new_response" by (simp add: demo_defs)
  note th = makeHandler_rejects_invalid_path [OF h1 h2, of saveHandler]
  from th have e: "makeHandler saveHandler ?r alpha_state = http_NotFound ?r alpha_state"
    by (rule conjunct1)
  have "sent (resp (http_NotFound ?r alpha_state))
       = Some (404, [''Content-Type'' \<mapsto> ''text/plain; charset=utf-8'',
                     ''X-Content-Type-Options'' \<mapsto> ''nosniff''])"
    by (simp add: http_defs demo_defs Let_def)
  moreover from th have "files (makeHandler saveHandler ?r alpha_state) = files alpha_state"
    by blast
  moreover from th have "events (makeHandler saveHandler ?r alpha_state)
       = events alpha_state @ [EvError ''404 page not found'' 404]"
    by blast
  then have "events (makeHandler saveHandler ?r alpha_state) = [EvError ''404 page not found'' 404]"
    by (simp add: demo_defs)
  ultimately show ?thesis using n e by simp
qed

text \<open>
  Claim C3. For every valid title \<open>t\<close> whose file \<open>t.txt\<close> does not exist, the view
  request \<open>/view/t\<close> is answered with status 302 and the location \<open>/edit/t\<close>, and the
  files are what they were: no file is created.
\<close>

theorem view_missing_page_redirects:
  assumes "validTitle t" and "Path r = ''/view/'' @ t"
    and "files s (filename t) = None" and "resp s = new_response"
  shows "(\<exists>h. sent (resp (makeHandler viewHandler r s)) = Some (302, h)
            \<and> h ''Location'' = Some (''/edit/'' @ t))
    \<and> files (makeHandler viewHandler r s) = files s"
proof -
  from assms(2) have p: "Path r = ''/'' @ ''view'' @ ''/'' @ t" by simp
  have m: "makeHandler viewHandler r s = viewHandler r t s"
    by (rule makeHandler_valid [OF assms(1) _ p]) simp
  have l: "files (Println (''view: '' @ Path r) s) (filename t) = None"
    using assms(3) by (simp add: Println_def)
  show ?thesis
    unfolding m viewHandler_def Let_def loadPage_missing [OF l]
    using assms(4)
    by (auto simp: Println_def http_defs render_defs Let_def split: option.splits prod.splits)
qed

theorem view_missing_page_redirects_witness:
  "validTitle ''Beta'' \<and> files alpha_state (filename ''Beta'') = None
   \<and> (\<exists>h. sent (resp (makeHandler viewHandler (get_request ''/view/Beta'') alpha_state))
              = Some (302, h) \<and> h ''Location'' = Some ''/edit/Beta'')
   \<and> files (makeHandler viewHandler (get_request ''/view/Beta'') alpha_state)
       = files alpha_state"
proof -
  have h1: "validTitle ''Beta''" by (simp add: validTitle_def alnum_def)
  have h2: "Path (get_request ''/view/Beta'') = ''/view/'' @ ''Beta''"
    by (simp add: get_request_def)
  have h3: "files alpha_state (filename ''Beta'') = None"
    by (simp add: demo_defs filename_def)
  have h4: "resp alpha_state = new_response" by (simp add: demo_defs)
  from view_missing_page_redirects [OF h1 h2 h3 h4] h1 h3 show ?thesis by simp
qed

text \<open>
  Claim C4. For every valid title \<open>t\<close> whose file \<open>t.txt\<close> does not exist, the edit
  request \<open>/edit/t\<close> renders the edit template on the page with title \<open>t\<close> and the
  empty body, made in memory: the response body is what the template produces for that
  page, the only file access is the read of \<open>t.txt\<close>, and the files are unchanged.
\<close>

theorem edit_missing_page_renders_empty_form:
  assumes "validTitle t" and "Path r = ''/edit/'' @ t"
    and "files s (filename t) = None" and "resp s = new_response"
  shows "makeHandler editHandler r s
           = renderTemplate ''edit'' (Some \<lparr>Title = t, Body = []\<rparr>) (snd (loadPage t s))
    \<and> files (makeHandler editHandler r s) = files s
    \<and> events (makeHandler editHandler r s)
        = events s @ [EvReadFile (filename t),
                      EvExecuteTemplate ''edit.html'' (Some \<lparr>Title = t, Body = []\<rparr>)]
          @ (case snd (templates s ''edit.html'' (Some \<lparr>Title = t, Body = []\<rparr>)) of
               None \<Rightarrow> [] | Some msg \<Rightarrow> [EvError msg 500])
    \<and> body (resp (makeHandler editHandler r s))
        = fst (templates s ''edit.html'' (Some \<lparr>Title = t, Body = []\<rparr>))
          @ (case snd (templates s ''edit.html'' (Some \<lparr>Title = t, Body = []\<rparr>)) of
               None \<Rightarrow> [] | Some msg \<Rightarrow> msg @ [CHR 0x0A])"
proof -
  from assms(2) have p: "Path r = ''/'' @ ''edit'' @ ''/'' @ t" by simp
  have m: "makeHandler editHandler r s = editHandler r t s"
    by (rule makeHandler_valid [OF assms(1) _ p]) simp
  show ?thesis
    unfolding m editHandler_def Let_def loadPage_missing [OF assms(3)]
    using assms(4)
    by (auto simp: http_defs render_defs Let_def split: option.splits prod.splits)
qed

theorem edit_missing_page_renders_empty_form_witness:
  "validTitle ''Beta'' \<and> files alpha_state (filename ''Beta'') = None
   \<and> files (makeHandler editHandler (get_request ''/edit/Beta'') alpha_state) = files alpha_state
   \<and> events (makeHandler editHandler (get_request ''/edit/Beta'') alpha_state)
       = [EvReadFile ''Beta.txt'',
          EvExecuteTemplate ''edit.html'' (Some \<lparr>Title = ''Beta'', Body = []\<rparr>)]
   \<and> body (resp (makeHandler editHandler (get_request ''/edit/Beta'') alpha_state))
       = ''<h1>Beta</h1><div></div>''"
proof -
  have h1: "validTitle ''Beta''" by (simp add: validTitle_def alnum_def)
  have h2: "Path (get_request ''/edit/Beta'') = ''/edit/'' @ ''Beta''"
    by (simp add: get_request_def)
  have h3: "files alpha_state (filename ''Beta'') = None"
    by (simp add: demo_defs filename_def)
  have h4: "resp alpha_state = new_response" by (simp add: demo_defs)
  have "files (makeHandler editHandler (get_request ''/edit/Beta'') alpha_state) = files alpha_state
    \<and> events (makeHandler editHandler (get_request ''/edit/Beta'') alpha_state)
        = events alpha_state @ [EvReadFile (filename ''Beta''),
                      EvExecuteTemplate ''edit.html'' (Some \<lparr>Title = ''Beta'', Body = []\<rparr>)]
          @ (case snd (templates alpha_state ''edit.html'' (Some \<lparr>Title = ''Beta'', Body = []\<rparr>)) of
               None \<Rightarrow> [] | Some msg \<Rightarrow> [EvError msg 500])
    \<and> body (resp (makeHandler editHandler (get_request ''/edit/Beta'') alpha_state))
        = fst (templates alpha_state ''edit.html'' (Some \<lparr>Title = ''Beta'', Body = []\<rparr>))
          @ (case snd (templates alpha_state ''edit.html'' (Some \<lparr>Title = ''Beta'', Body = []\<rparr>)) of
               None \<Rightarrow> [] | Some msg \<Rightarrow> msg @ [CHR 0x0A])"
    using edit_missing_page_renders_empty_form [OF h1 h2 h3 h4] by (rule conjunct2)
  moreover have "templates alpha_state ''edit.html'' (Some \<lparr>Title = ''Beta'', Body = []\<rparr>)
      = (''<h1>Beta</h1><div></div>'', None)"
    by (simp add: demo_defs)
  moreover have "events alpha_state = []" by (simp add: demo_defs)
  moreover have "filename ''Beta'' = ''Beta.txt''" by (simp add: filename_def)
  ultimately show ?thesis using h1 h3 by simp
qed

text \<open>
  Claim C5. For every valid title \<open>t\<close>, the save request \<open>/save/t\<close> writes the
  submitted body to \<open>t.txt\<close> once. If the write succeeds, the file holds the body and
  the response is 302 with the location \<open>/view/t\<close>. If the write fails with a
  message, the response is 500 with that message as its body, no redirect is issued
  and the write is not attempted again.
\<close>

theorem saveHandler_redirects_or_reports:
  assumes "validTitle t" and "Path r = ''/save/'' @ t" and "resp s = new_response"
  shows "case write_fault s (filename t) of
           None \<Rightarrow>
             files (makeHandler saveHandler r s) = (files s)(filename t \<mapsto> FormValue r ''body'')
             \<and> (\<exists>h. sent (resp (makeHandler saveHandler r s)) = Some (302, h)
                    \<and> h ''Location'' = Some (''/view/'' @ t))
             \<and> events (makeHandler saveHandler r s)
                 = events s @ [EvPrintln (''save: '' @ Path r), EvPrintln (''saving'' @ filename t),
                               EvWriteFile (filename t) (FormValue r ''body'') 384,
                               EvRedirect (''/view/'' @ t) 302]
         | Some (msg, k) \<Rightarrow>
             (\<exists>h. sent (resp (makeHandler saveHandler r s)) = Some (500, h)
                    \<and> h ''Location'' = None)
             \<and> body (resp (makeHandler saveHandler r s)) = msg @ [CHR 0x0A]
             \<and> events (makeHandler saveHandler r s)
                 = events s @ [EvPrintln (''save: '' @ Path r), EvPrintln (''saving'' @ filename t),
                               EvWriteFile (filename t) (FormValue r ''body'') 384,
                               EvError msg 500]"
proof -
  from assms(2) have p: "Path r = ''/'' @ ''save'' @ ''/'' @ t" by simp
  have m: "makeHandler saveHandler r s = saveHandler r t s"
    by (rule makeHandler_valid [OF assms(1) _ p]) simp
  show ?thesis
    unfolding m saveHandler_def
    using assms(3)
    by (auto simp: store_defs http_defs split: option.splits prod.splits)
qed

theorem saveHandler_redirects_or_reports_witness:
  "validTitle ''Alpha''
   \<and> files (makeHandler saveHandler (post_request ''/save/Alpha'' ''Hello'') demo_state)
       = [''Alpha.txt'' \<mapsto> ''Hello'']
   \<and> (\<exists>h. sent (resp (makeHandler saveHandler (post_request ''/save/Alpha'' ''Hello'') demo_state))
              = Some (302, h) \<and> h ''Location'' = Some ''/view/Alpha'')
   \<and> (\<exists>h. sent (resp (makeHandler saveHandler (post_request ''/save/Alpha'' ''Hello'') readonly_state))
              = Some (500, h) \<and> h ''Location'' = None)
   \<and> body (resp (makeHandler saveHandler (post_request ''/save/Alpha'' ''Hello'') readonly_state))
       = ''open Alpha.txt: permission denied'' @ [CHR 0x0A]
   \<and> events (makeHandler saveHandler (post_request ''/save/Alpha'' ''Hello'') readonly_state)
       = [EvPrintln ''save: /save/Alpha'', EvPrintln ''savingAlpha.txt'',
          EvWriteFile ''Alpha.txt'' ''Hello'' 384,
          EvError ''open Alpha.txt: permission denied'' 500]"
proof -
  let ?r = "post_request ''/save/Alpha'' ''Hello''"
  have h1: "validTitle ''Alpha''" by (simp add: validTitle_def alnum_def)
  have h2: "Path ?r = ''/save/'' @ ''Alpha''" by (simp add: post_request_def)
  have h3: "resp demo_state = new_response" by (simp add: demo_defs)
  have h4: "resp readonly_state = new_response" by (simp add: demo_defs)
  have w1: "write_fault demo_state (filename ''Alpha'') = None" by (simp add: demo_defs)
  have w2: "write_fault readonly_state (filename ''Alpha'')
              = Some (''open Alpha.txt: permission denied'', None)"
    by (simp add: demo_defs filename_def)
  from saveHandler_redirects_or_reports [OF h1 h2 h3]
  have a: "files (makeHandler saveHandler ?r demo_state) = [''Alpha.txt'' \<mapsto> ''Hello'']
     \<and> (\<exists>h. sent (resp (makeHandler saveHandler ?r demo_state)) = Some (302, h)
              \<and> h ''Location'' = Some ''/view/Alpha'')"
    unfolding w1 by (simp add: demo_defs filename_def FormValue_def)
  from saveHandler_redirects_or_reports [OF h1 h2 h4]
  have b: "(\<exists>h. sent (resp (makeHandler saveHandler ?r readonly_state)) = Some (500, h)
              \<and> h ''Location'' = None)
     \<and> body (resp (makeHandler saveHandler ?r readonly_state))
         = ''open Alpha.txt: permission denied'' @ [CHR 0x0A]
     \<and> events (makeHandler saveHandler ?r readonly_state)
         = [EvPrintln ''save: /save/Alpha'', EvPrintln ''savingAlpha.txt'',
            EvWriteFile ''Alpha.txt'' ''Hello'' 384,
            EvError ''open Alpha.txt: permission denied'' 500]"
    unfolding w2 by (simp add: demo_defs filename_def FormValue_def)
  from h1 a b show ?thesis by blast
qed

section \<open>The earlier handlers\<close>

lemma six: "(6::nat) = Suc (Suc (Suc (Suc (Suc (Suc 0)))))"
  by simp

lemma wiki_viewHandler_events:
  assumes "\<not> length (Path r) < 6"
  shows "\<exists>s' tl. wiki_viewHandler r s = Returned s'
           \<and> events s' = events s @ [EvPrintln (''view: '' @ Path r),
                                       EvReadFile (drop 6 (Path r) @ ''.txt'')] @ tl"
proof -
  let ?s1 = "Println (''view: '' @ Path r) s"
  let ?t = "drop 6 (Path r)"
  let ?s2 = "?s1\<lparr>events := events ?s1 @ [EvReadFile (filename ?t)]\<rparr>"
  obtain p e where l: "loadPage ?t ?s1 = ((p, e), ?s2)"
    using loadPage_eq [of ?t ?s1] by (metis surj_pair)
  let ?s3 = "if e \<noteq> None then http_Redirect r (''/edit/'' @ ?t) StatusFound ?s2 else ?s2"
  have v: "wiki_viewHandler r s = Returned (wiki_renderTemplate ''view'' p ?s3)"
    using assms l by (simp add: wiki_viewHandler_def Let_def six)
  obtain tl where tl: "events (wiki_renderTemplate ''view'' p ?s3) = events ?s3 @ tl"
    using wiki_renderTemplate_events by blast
  have ev3: "events ?s3 = events s @ [EvPrintln (''view: '' @ Path r), EvReadFile (?t @ ''.txt'')]
               @ (if e \<noteq> None then [EvRedirect (''/edit/'' @ ?t) StatusFound] else [])"
    by (simp add: http_Redirect_simps Println_simps filename_def)
  have "events (wiki_renderTemplate ''view'' p ?s3)
          = events s @ [EvPrintln (''view: '' @ Path r), EvReadFile (?t @ ''.txt'')]
            @ ((if e \<noteq> None then [EvRedirect (''/edit/'' @ ?t) StatusFound] else []) @ tl)"
    unfolding tl ev3 by simp
  with v show ?thesis by blast
qed

lemma wiki_editHandler_events:
  assumes "\<not> length (Path r) < 6"
  shows "\<exists>s' tl. wiki_editHandler r s = Returned s'
           \<and> events s' = events s @ [EvPrintln (''edit: '' @ Path r),
                 EvReadFile (drop (length ''/view/'') (Path r) @ ''.txt'')] @ tl"
proof -
  let ?s1 = "Println (''edit: '' @ Path r) s"
  let ?t = "drop 6 (Path r)"
  let ?s2 = "?s1\<lparr>events := events ?s1 @ [EvReadFile (filename ?t)]\<rparr>"
  obtain p e where l: "loadPage ?t ?s1 = ((p, e), ?s2)"
    using loadPage_eq [of ?t ?s1] by (metis surj_pair)
  let ?p = "if e \<noteq> None then Some \<lparr>Title = ?t, Body = []\<rparr> else p"
  have v: "wiki_editHandler r s = Returned (wiki_renderTemplate ''edit'' ?p ?s2)"
    using assms l by (simp add: wiki_editHandler_def Let_def six)
  obtain tl where tl: "events (wiki_renderTemplate ''edit'' ?p ?s2) = events ?s2 @ tl"
    using wiki_renderTemplate_events by blast
  with v show ?thesis by (simp add: Println_simps filename_def six)
qed

lemma wiki_saveHandler_events:
  assumes "\<not> length (Path r) < 6"
  shows "\<exists>s' tl. wiki_saveHandler r s = Returned s'
           \<and> events s' = events s @ [EvPrintln (''save: '' @ Path r),
                 EvPrintln (''saving'' @ drop 6 (Path r) @ ''.txt''),
                 EvWriteFile (drop 6 (Path r) @ ''.txt'') (FormValue r ''body'') 384] @ tl"
proof -
  let ?s1 = "Println (''save: '' @ Path r) s"
  let ?t = "drop 6 (Path r)"
  let ?p = "\<lparr>Title = ?t, Body = FormValue r ''body''\<rparr>"
  obtain e s2 where sv: "save ?p ?s1 = (e, s2)" by (cases "save ?p ?s1")
  then have ev: "events s2 = events ?s1 @ [EvPrintln (''saving'' @ filename ?t),
                   EvWriteFile (filename ?t) (FormValue r ''body'') 384]"
    using save_events [of ?p ?s1] by simp
  show ?thesis
  proof (cases e)
    case None
    with sv assms
    have "wiki_saveHandler r s = Returned (http_Redirect r (''/view/'' @ ?t) StatusFound s2)"
      by (simp add: wiki_saveHandler_def Let_def six)
    with ev show ?thesis by (simp add: http_Redirect_simps Println_simps filename_def)
  next
    case (Some msg)
    with sv assms
    have "wiki_saveHandler r s = Returned (http_Error msg StatusInternalServerError s2)"
      by (simp add: wiki_saveHandler_def Let_def six)
    with ev show ?thesis by (simp add: http_Error_simps Println_simps filename_def)
  qed
qed

text \<open>
  Claim C10. The handlers of \<open>wiki.go\<close> validate nothing: for every request path of
  at least six bytes, whatever follows the first six bytes is the title, and the file
  the handler reads (view, edit) or writes (save) is that title followed by \<open>.txt\<close>;
  the edit handler cuts at the length of \<open>"/view/"\<close>. A shorter path makes the slice
  expression panic. A title holding \<open>/\<close> or \<open>.\<close> thus reaches \<open>loadPage\<close> and
  \<open>save\<close> as it is.
\<close>

theorem wiki_handlers_use_unvalidated_title:
  "(if length (Path r) < 6
    then wiki_viewHandler r s
           = Panicked ''slice bounds out of range'' (Println (''view: '' @ Path r) s)
    else \<exists>s' tl. wiki_viewHandler r s = Returned s'
           \<and> events s' = events s @ [EvPrintln (''view: '' @ Path r),
                                       EvReadFile (drop 6 (Path r) @ ''.txt'')] @ tl)
   \<and> (if length (Path r) < 6
    then wiki_editHandler r s
           = Panicked ''slice bounds out of range'' (Println (''edit: '' @ Path r) s)
    else \<exists>s' tl. wiki_editHandler r s = Returned s'
           \<and> events s' = events s @ [EvPrintln (''edit: '' @ Path r),
                 EvReadFile (drop (length ''/view/'') (Path r) @ ''.txt'')] @ tl)
   \<and> (if length (Path r) < 6
    then wiki_saveHandler r s
           = Panicked ''slice bounds out of range'' (Println (''save: '' @ Path r) s)
    else \<exists>s' tl. wiki_saveHandler r s = Returned s'
           \<and> events s' = events s @ [EvPrintln (''save: '' @ Path r),
                 EvPrintln (''saving'' @ drop 6 (Path r) @ ''.txt''),
                 EvWriteFile (drop 6 (Path r) @ ''.txt'') (FormValue r ''body'') 384] @ tl)"
proof (cases "length (Path r) < 6")
  case True
  then show ?thesis
    by (simp add: wiki_viewHandler_def wiki_editHandler_def wiki_saveHandler_def Let_def)
next
  case False
  from wiki_viewHandler_events [OF False] wiki_editHandler_events [OF False]
    wiki_saveHandler_events [OF False] False
  show ?thesis by simp
qed

theorem wiki_handlers_use_unvalidated_title_witness:
  "(\<exists>s' tl. wiki_editHandler (get_request ''/edit/a/b.c'') demo_state = Returned s'
       \<and> events s' = [EvPrintln ''edit: /edit/a/b.c'', EvReadFile ''a/b.c.txt''] @ tl)
   \<and> (\<exists>s' tl. wiki_saveHandler (post_request ''/save/a/b.c'' ''Hello'') demo_state = Returned s'
       \<and> events s' = [EvPrintln ''save: /save/a/b.c'', EvPrintln ''savinga/b.c.txt'',
                       EvWriteFile ''a/b.c.txt'' ''Hello'' 384] @ tl)"
  using wiki_handlers_use_unvalidated_title [of "get_request ''/edit/a/b.c''" demo_state]
    wiki_handlers_use_unvalidated_title [of "post_request ''/save/a/b.c'' ''Hello''" demo_state]
  by (simp add: get_request_def post_request_def demo_state_def FormValue_def)


section \<open>The view handlers after a failed load\<close>

lemma wiki_renderTemplate_events_eq:
  "events (wiki_renderTemplate tmpl p s)
     = events s @ [EvParseFiles (tmpl @ ''.html'')]
       @ (case parse_fault s (tmpl @ ''.html'') of
            Some msg \<Rightarrow> [EvError msg 500]
          | None \<Rightarrow>
              [EvExecuteTemplate (tmpl @ ''.html'') p]
              @ (case snd (templates s (tmpl @ ''.html'') p) of
                   None \<Rightarrow> [] | Some msg \<Rightarrow> [EvError msg 500]))"
  by (simp add: wiki_renderTemplate_def ParseFiles_def ExecuteTemplate_def http_Error_simps
      StatusInternalServerError_def Let_def split: prod.splits option.splits)

lemma viewHandler_after_failed_load:
  assumes "snd (fst (loadPage t s)) \<noteq> None"
  shows "viewHandler r t s
           = renderTemplate ''view'' None
               (http_Redirect r (''/edit/'' @ t) StatusFound
                  (snd (loadPage t (Println (''view: '' @ Path r) s))))"
proof -
  let ?s1 = "Println (''view: '' @ Path r) s"
  from assms have err: "snd (fst (loadPage t ?s1)) \<noteq> None"
    by (simp add: loadPage_Println)
  then have nil: "fst (fst (loadPage t ?s1)) = None"
    by (rule loadPage_error_nil)
  obtain p e s2 where l: "loadPage t ?s1 = ((p, e), s2)"
    by (metis surj_pair)
  with err nil have "p = None" "e \<noteq> None" by simp_all
  with l show ?thesis by (simp add: viewHandler_def)
qed

lemma wiki_viewHandler_after_failed_load:
  assumes "snd (fst (loadPage t s)) \<noteq> None"
    and "6 \<le> length (Path r)" and "drop 6 (Path r) = t"
  shows "wiki_viewHandler r s
           = Returned (wiki_renderTemplate ''view'' None
               (http_Redirect r (''/edit/'' @ t) StatusFound
                  (snd (loadPage t (Println (''view: '' @ Path r) s)))))"
proof -
  let ?s1 = "Println (''view: '' @ Path r) s"
  from assms(1) have err: "snd (fst (loadPage t ?s1)) \<noteq> None"
    by (simp add: loadPage_Println)
  then have nil: "fst (fst (loadPage t ?s1)) = None"
    by (rule loadPage_error_nil)
  obtain p e s2 where l: "loadPage t ?s1 = ((p, e), s2)"
    by (metis surj_pair)
  with err nil have pe: "p = None" "e \<noteq> None" by simp_all
  from assms(3) have d: "drop (Suc (Suc (Suc (Suc (Suc (Suc 0)))))) (Path r) = t"
    by (simp add: six)
  from assms(2) have n: "\<not> length (Path r) < Suc (Suc (Suc (Suc (Suc (Suc 0)))))"
    by simp
  from l pe d n show ?thesis by (simp add: wiki_viewHandler_def Let_def)
qed

text \<open>
  Claim C8. In both view handlers, when \<open>loadPage\<close> returns an error for the
  requested title, the handler does not return after the redirect: its result is the
  render of the view template on the nil page, run on the state the redirect left.
  For the handler of the validating version the log shows the prints, the read, the
  redirect to \<open>/edit/t\<close> and then the execution of \<open>view.html\<close> on the nil page; for
  the handler of \<open>wiki.go\<close>, whose title is what follows the first six bytes of the
  path, the log shows the same redirect followed by the parse of \<open>view.html\<close> and,
  when the parse succeeds, its execution on the nil page.
\<close>

theorem viewHandler_renders_after_redirect:
  assumes "snd (fst (loadPage t s)) \<noteq> None"
  shows "viewHandler r t s
           = renderTemplate ''view'' None
               (http_Redirect r (''/edit/'' @ t) StatusFound
                  (snd (loadPage t (Println (''view: '' @ Path r) s))))
    \<and> events (viewHandler r t s)
        = events s @ [EvPrintln (''view: '' @ Path r), EvReadFile (filename t),
                      EvRedirect (''/edit/'' @ t) 302, EvExecuteTemplate ''view.html'' None]
          @ (case snd (templates s ''view.html'' None) of
               None \<Rightarrow> [] | Some msg \<Rightarrow> [EvError msg 500])
    \<and> (6 \<le> length (Path r) \<and> drop 6 (Path r) = t \<longrightarrow>
         wiki_viewHandler r s
           = Returned (wiki_renderTemplate ''view'' None
               (http_Redirect r (''/edit/'' @ t) StatusFound
                  (snd (loadPage t (Println (''view: '' @ Path r) s)))))
         \<and> events (wiki_renderTemplate ''view'' None
               (http_Redirect r (''/edit/'' @ t) StatusFound
                  (snd (loadPage t (Println (''view: '' @ Path r) s)))))
             = events s @ [EvPrintln (''view: '' @ Path r), EvReadFile (filename t),
                           EvRedirect (''/edit/'' @ t) 302, EvParseFiles ''view.html'']
               @ (case parse_fault s ''view.html'' of
                    Some msg \<Rightarrow> [EvError msg 500]
                  | None \<Rightarrow>
                      [EvExecuteTemplate ''view.html'' None]
                      @ (case snd (templates s ''view.html'' None) of
                           None \<Rightarrow> [] | Some msg \<Rightarrow> [EvError msg 500])))"
proof -
  let ?s3 = "http_Redirect r (''/edit/'' @ t) StatusFound
               (snd (loadPage t (Println (''view: '' @ Path r) s)))"
  have ev3: "events ?s3 = events s @ [EvPrintln (''view: '' @ Path r), EvReadFile (filename t),
                      EvRedirect (''/edit/'' @ t) 302]"
    by (simp add: http_Redirect_simps loadPage_state Println_def StatusFound_def)
  have t3: "templates ?s3 = templates s" and p3: "parse_fault ?s3 = parse_fault s"
    by (simp_all add: http_Redirect_simps loadPage_state Println_def)
  have v: "viewHandler r t s = renderTemplate ''view'' None ?s3"
    using assms by (rule viewHandler_after_failed_load)
  have e1: "events (renderTemplate ''view'' None ?s3)
        = events s @ [EvPrintln (''view: '' @ Path r), EvReadFile (filename t),
                      EvRedirect (''/edit/'' @ t) 302, EvExecuteTemplate ''view.html'' None]
          @ (case snd (templates s ''view.html'' None) of
               None \<Rightarrow> [] | Some msg \<Rightarrow> [EvError msg 500])"
    unfolding renderTemplate_events ev3 t3 by simp
  have e2: "events (wiki_renderTemplate ''view'' None ?s3)
             = events s @ [EvPrintln (''view: '' @ Path r), EvReadFile (filename t),
                           EvRedirect (''/edit/'' @ t) 302, EvParseFiles ''view.html'']
               @ (case parse_fault s ''view.html'' of
                    Some msg \<Rightarrow> [EvError msg 500]
                  | None \<Rightarrow>
                      [EvExecuteTemplate ''view.html'' None]
                      @ (case snd (templates s ''view.html'' None) of
                           None \<Rightarrow> [] | Some msg \<Rightarrow> [EvError msg 500]))"
    unfolding wiki_renderTemplate_events_eq ev3 t3 p3
    by (simp cong: option.case_cong)
  have w: "wiki_viewHandler r s = Returned (wiki_renderTemplate ''view'' None ?s3)"
    if "6 \<le> length (Path r)" and "drop 6 (Path r) = t"
    using assms that by (rule wiki_viewHandler_after_failed_load)
  from v e1 have "viewHandler r t s = renderTemplate ''view'' None ?s3
      \<and> events (viewHandler r t s)
        = events s @ [EvPrintln (''view: '' @ Path r), EvReadFile (filename t),
                      EvRedirect (''/edit/'' @ t) 302, EvExecuteTemplate ''view.html'' None]
          @ (case snd (templates s ''view.html'' None) of
               None \<Rightarrow> [] | Some msg \<Rightarrow> [EvError msg 500])"
    by simp
  with w e2 show ?thesis by blast
qed

theorem viewHandler_renders_after_redirect_witness:
  "snd (fst (loadPage ''Beta'' demo_state)) \<noteq> None
   \<and> 6 \<le> length (Path (get_request ''/view/Beta''))
   \<and> drop 6 (Path (get_request ''/view/Beta'')) = ''Beta''
   \<and> events (viewHandler (get_request ''/view/Beta'') ''Beta'' demo_state)
       = [EvPrintln ''view: /view/Beta'', EvReadFile ''Beta.txt'',
          EvRedirect ''/edit/Beta'' 302, EvExecuteTemplate ''view.html'' None,
          EvError ''nil pointer evaluating *main.Page.Title'' 500]
   \<and> (\<exists>s'. wiki_viewHandler (get_request ''/view/Beta'') demo_state = Returned s'
         \<and> events s'
             = [EvPrintln ''view: /view/Beta'', EvReadFile ''Beta.txt'',
                EvRedirect ''/edit/Beta'' 302, EvParseFiles ''view.html'',
                EvExecuteTemplate ''view.html'' None,
                EvError ''nil pointer evaluating *main.Page.Title'' 500])"
proof -
  let ?r = "get_request ''/view/Beta''"
  let ?s3 = "http_Redirect ?r (''/edit/'' @ ''Beta'') StatusFound
               (snd (loadPage ''Beta'' (Println (''view: '' @ Path ?r) demo_state)))"
  have h: "snd (fst (loadPage ''Beta'' demo_state)) \<noteq> None"
    by (simp add: loadPage_result_eq demo_defs)
  have h2: "6 \<le> length (Path ?r)" and h3: "drop 6 (Path ?r) = ''Beta''"
    by (simp_all add: get_request_def)
  note th = viewHandler_renders_after_redirect [OF h, of ?r]
  have c: "snd (templates demo_state ''view.html'' None)
             = Some ''nil pointer evaluating *main.Page.Title''"
    "parse_fault demo_state ''view.html'' = None" "events demo_state = []"
    "filename ''Beta'' = ''Beta.txt''" "Path ?r = ''/view/Beta''"
    by (simp_all add: demo_defs filename_def)
  from th have "events (viewHandler ?r ''Beta'' demo_state)
       = events demo_state @ [EvPrintln (''view: '' @ Path ?r), EvReadFile (filename ''Beta''),
           EvRedirect (''/edit/'' @ ''Beta'') 302, EvExecuteTemplate ''view.html'' None]
          @ (case snd (templates demo_state ''view.html'' None) of
               None \<Rightarrow> [] | Some msg \<Rightarrow> [EvError msg 500])"
    by blast
  then have a: "events (viewHandler ?r ''Beta'' demo_state)
       = [EvPrintln ''view: /view/Beta'', EvReadFile ''Beta.txt'',
          EvRedirect ''/edit/Beta'' 302, EvExecuteTemplate ''view.html'' None,
          EvError ''nil pointer evaluating *main.Page.Title'' 500]"
    unfolding c by simp
  from th h2 h3 have w: "wiki_viewHandler ?r demo_state
           = Returned (wiki_renderTemplate ''view'' None ?s3)"
    by blast
  from th h2 h3 have "events (wiki_renderTemplate ''view'' None ?s3)
             = events demo_state @ [EvPrintln (''view: '' @ Path ?r), EvReadFile (filename ''Beta''),
                           EvRedirect (''/edit/'' @ ''Beta'') 302, EvParseFiles ''view.html'']
               @ (case parse_fault demo_state ''view.html'' of
                    Some msg \<Rightarrow> [EvError msg 500]
                  | None \<Rightarrow>
                      [EvExecuteTemplate ''view.html'' None]
                      @ (case snd (templates demo_state ''view.html'' None) of
                           None \<Rightarrow> [] | Some msg \<Rightarrow> [EvError msg 500]))"
    by blast
  then have b: "events (wiki_renderTemplate ''view'' None ?s3)
             = [EvPrintln ''view: /view/Beta'', EvReadFile ''Beta.txt'',
                EvRedirect ''/edit/Beta'' 302, EvParseFiles ''view.html'',
                EvExecuteTemplate ''view.html'' None,
                EvError ''nil pointer evaluating *main.Page.Title'' 500]"
    unfolding c by simp
  from w b have "\<exists>s'. wiki_viewHandler ?r demo_state = Returned s'
         \<and> events s'
             = [EvPrintln ''view: /view/Beta'', EvReadFile ''Beta.txt'',
                EvRedirect ''/edit/Beta'' 302, EvParseFiles ''view.html'',
                EvExecuteTemplate ''view.html'' None,
                EvError ''nil pointer evaluating *main.Page.Title'' 500]"
    by blast
  with h h2 h3 a show ?thesis by blast
qed

end
